theory Spec2Isabelle
  imports Main
begin

section \<open>JavaScript values used by the cursor library\<close>

text \<open>
  Strings are lists of code units (\<^typ>\<open>string\<close>); the library only ever inspects
  them through \<^verbatim>\<open>slice\<close>, indexing, \<^verbatim>\<open>toUpperCase\<close>, concatenation and
  \<^verbatim>\<open>!==\<close>. Numbers are integers (\<^typ>\<open>int\<close>): on them \<^verbatim>\<open>Math.floor\<close> is the
  identity. An optional parameter is an \<^typ>\<open>'a option\<close>, \<^term>\<open>None\<close> standing for
  \<^verbatim>\<open>undefined\<close>, which is exactly when a JavaScript default value applies.
\<close>

definition default_arg :: "'a \<Rightarrow> 'a option \<Rightarrow> 'a" where
  "default_arg d v = (case v of None \<Rightarrow> d | Some a \<Rightarrow> a)"

text \<open>
  \<^verbatim>\<open>String.prototype.toUpperCase\<close> is modelled on ASCII strings, those whose code units
  are all below 128: there it maps the letters a to z to A to Z and keeps every other
  code unit, which is what the function below computes. On other code units the
  JavaScript mapping follows the Unicode tables (it can give two units, as for the
  sharp s, or a unit above 255) and is not modelled: every statement below that speaks
  of an arbitrary name carries the premise \<open>is_ascii\<close>, and the other statements apply
  the function to the ASCII literals \<^verbatim>\<open>none\<close> and \<^verbatim>\<open>black\<close> only.
\<close>

definition is_ascii :: "string \<Rightarrow> bool" where
  "is_ascii s = list_all (\<lambda>c. (of_char c :: nat) < 128) s"

definition toUpperCase_char :: "char \<Rightarrow> char" where
  "toUpperCase_char c =
     (let n = (of_char c :: nat) in if 97 \<le> n \<and> n \<le> 122 then char_of (n - 32) else c)"

definition toUpperCase :: "string \<Rightarrow> string" where
  "toUpperCase s = map toUpperCase_char s"

text \<open>The decimal text of a number inside a template literal (\<^verbatim>\<open>`${y + 1}`\<close>), for the
  integers below \<open>10\<^sup>2\<^sup>1\<close> in absolute value, which JavaScript prints digit by digit.\<close>

definition digit_char :: "nat \<Rightarrow> char" where
  "digit_char n = char_of (48 + n)"

fun nat_digits :: "nat \<Rightarrow> string" where
  "nat_digits n = (if n < 10 then [digit_char n] else nat_digits (n div 10) @ [digit_char (n mod 10)])"

declare nat_digits.simps [simp del]

definition Number_toString :: "int \<Rightarrow> string" where
  "Number_toString i = (if i < 0 then CHR ''-'' # nat_digits (nat (- i)) else nat_digits (nat i))"

text \<open>Reading an array element: \<^verbatim>\<open>a[i]\<close> is \<^verbatim>\<open>undefined\<close> (\<^term>\<open>None\<close>) when \<open>i\<close> is
  negative or not below the length.\<close>

definition js_get :: "'a list \<Rightarrow> int \<Rightarrow> 'a option" where
  "js_get xs i = (if 0 \<le> i \<and> nat i < length xs then Some (xs ! nat i) else None)"

section \<open>util/displayModes.js and util/encodeToVT100.js\<close>

definition RESET_ALL :: string where "RESET_ALL = ''[0m''"
definition BOLD :: string where "BOLD = ''[1m''"
definition DIM :: string where "DIM = ''[2m''"
definition UNDERLINED :: string where "UNDERLINED = ''[4m''"
definition BLINK :: string where "BLINK = ''[5m''"
definition REVERSE :: string where "REVERSE = ''[7m''"
definition HIDDEN :: string where "HIDDEN = ''[8m''"

definition ESC :: char where
  "ESC = CHR 0x1B"

definition encodeToVT100 :: "string \<Rightarrow> string" where
  "encodeToVT100 code = ESC # code"

section \<open>util/colors.js\<close>

text \<open>
  The colour table \<^verbatim>\<open>COLORS\<close> that \<^verbatim>\<open>Cell.js\<close> imports from \<^verbatim>\<open>util/colors.js\<close> is not
  among the sources. Every function that reads it takes the table as a parameter: a map
  from colour names to numeric terminal codes, which is how the specification describes
  it. A name that is not a key reads as \<^verbatim>\<open>undefined\<close>.
\<close>

type_synonym color_table = "string \<rightharpoonup> int"

text \<open>Modelled from the spec: the contents of \<^verbatim>\<open>util/colors.js\<close> are missing; these are
  the three entries the specification names (``BLACK=0, YELLOW=11, WHITE=15''), as a
  concrete table for the examples.\<close>

definition COLORS_example :: color_table where
  "COLORS_example = [''BLACK'' \<mapsto> 0, ''YELLOW'' \<mapsto> 11, ''WHITE'' \<mapsto> 15]"

text \<open>The condition of \<^verbatim>\<open>COLORS[color] ? color : 'none'\<close>: \<^verbatim>\<open>undefined\<close> and the number
  \<open>0\<close> are falsy, every other number is truthy.\<close>

definition truthy :: "int option \<Rightarrow> bool" where
  "truthy v = (case v of None \<Rightarrow> False | Some n \<Rightarrow> n \<noteq> 0)"

text \<open>\<^verbatim>\<open>`${COLORS[name]}`\<close>: the code in decimal, or the text \<^verbatim>\<open>undefined\<close>.\<close>

definition color_code :: "color_table \<Rightarrow> string \<Rightarrow> string" where
  "color_code COLORS name =
     (case COLORS name of None \<Rightarrow> ''undefined'' | Some n \<Rightarrow> Number_toString n)"

section \<open>Cell.js\<close>

text \<open>The object \<^verbatim>\<open>this._display\<close>.\<close>

record display =
  bold :: bool
  dim :: bool
  underlined :: bool
  blink :: bool
  reverse :: bool
  hidden :: bool

text \<open>The fields \<^verbatim>\<open>_char\<close>, \<^verbatim>\<open>_x\<close>, \<^verbatim>\<open>_y\<close>, \<^verbatim>\<open>_background\<close>, \<^verbatim>\<open>_foreground\<close>,
  \<^verbatim>\<open>_display\<close> and \<^verbatim>\<open>_modified\<close> of a \<^verbatim>\<open>Cell\<close>.\<close>

record cell =
  c_char :: string
  c_x :: int
  c_y :: int
  c_background :: string
  c_foreground :: string
  c_display :: display
  c_modified :: bool

definition getChar :: "cell \<Rightarrow> string" where
  "getChar c = c_char c"

definition setChar :: "string option \<Rightarrow> cell \<Rightarrow> cell" where
  "setChar char c = c\<lparr>c_char := take 1 (default_arg '' '' char)\<rparr>"

definition getX :: "cell \<Rightarrow> int" where
  "getX c = c_x c"

definition setX :: "int option \<Rightarrow> cell \<Rightarrow> cell" where
  "setX x c = c\<lparr>c_x := default_arg 0 x\<rparr>"

definition getY :: "cell \<Rightarrow> int" where
  "getY c = c_y c"

definition setY :: "int option \<Rightarrow> cell \<Rightarrow> cell" where
  "setY y c = c\<lparr>c_y := default_arg 0 y\<rparr>"

definition getBackground :: "cell \<Rightarrow> string" where
  "getBackground c = c_background c"

definition setBackground :: "color_table \<Rightarrow> string option \<Rightarrow> cell \<Rightarrow> cell" where
  "setBackground COLORS colorName c =
     (let color = toUpperCase (default_arg ''none'' colorName)
      in c\<lparr>c_background := (if truthy (COLORS color) then color else ''none'')\<rparr>)"

definition getForeground :: "cell \<Rightarrow> string" where
  "getForeground c = c_foreground c"

definition setForeground :: "color_table \<Rightarrow> string option \<Rightarrow> cell \<Rightarrow> cell" where
  "setForeground COLORS colorName c =
     (let color = toUpperCase (default_arg ''none'' colorName)
      in c\<lparr>c_foreground := (if truthy (COLORS color) then color else ''none'')\<rparr>)"

definition getDisplay :: "cell \<Rightarrow> display" where
  "getDisplay c = c_display c"

definition setDisplay ::
  "bool option \<Rightarrow> bool option \<Rightarrow> bool option \<Rightarrow> bool option \<Rightarrow> bool option \<Rightarrow> bool option
     \<Rightarrow> cell \<Rightarrow> cell" where
  "setDisplay b d u bl r h c =
     c\<lparr>c_display :=
         \<lparr>bold = default_arg False b, dim = default_arg False d,
          underlined = default_arg False u, blink = default_arg False bl,
          reverse = default_arg False r, hidden = default_arg False h\<rparr>\<rparr>"

definition setModified :: "bool option \<Rightarrow> cell \<Rightarrow> cell" where
  "setModified isModified c = c\<lparr>c_modified := default_arg True isModified\<rparr>"

definition isModified :: "cell \<Rightarrow> bool" where
  "isModified c = c_modified c"

text \<open>\<^verbatim>\<open>Cell.reset\<close>: the chain \<^verbatim>\<open>setChar(' ').setBackground('none').setForeground('none')
  .setDisplay(false, ...).setModified(true)\<close>.\<close>

definition Cell_reset :: "color_table \<Rightarrow> cell \<Rightarrow> cell" where
  "Cell_reset COLORS c =
     setModified (Some True)
       (setDisplay (Some False) (Some False) (Some False) (Some False) (Some False) (Some False)
         (setForeground COLORS (Some ''none'')
           (setBackground COLORS (Some ''none'')
             (setChar (Some '' '') c))))"

text \<open>\<^verbatim>\<open>Cell.toString\<close>, the renderer.\<close>

definition toString :: "color_table \<Rightarrow> cell \<Rightarrow> string" where
  "toString COLORS c =
     (let char = getChar c; x = getX c; y = getY c;
          background = getBackground c; foreground = getForeground c; display = getDisplay c
      in encodeToVT100 (''['' @ Number_toString (y + 1) @ '';'' @ Number_toString (x + 1) @ ''f'') @
         (if background \<noteq> ''none''
          then encodeToVT100 (''[48;5;'' @ color_code COLORS background @ ''m'') else '''') @
         (if foreground \<noteq> ''none''
          then encodeToVT100 (''[38;5;'' @ color_code COLORS foreground @ ''m'') else '''') @
         (if bold display then encodeToVT100 BOLD else '''') @
         (if dim display then encodeToVT100 DIM else '''') @
         (if underlined display then encodeToVT100 UNDERLINED else '''') @
         (if blink display then encodeToVT100 BLINK else '''') @
         (if reverse display then encodeToVT100 REVERSE else '''') @
         (if hidden display then encodeToVT100 HIDDEN else '''') @
         char @
         encodeToVT100 RESET_ALL)"

text \<open>The constructor \<^verbatim>\<open>new Cell(char, options)\<close>; \<^verbatim>\<open>options\<close> and its \<^verbatim>\<open>display\<close>
  member are records of optional values.\<close>

record display_options =
  o_bold :: "bool option"
  o_dim :: "bool option"
  o_underlined :: "bool option"
  o_blink :: "bool option"
  o_reverse :: "bool option"
  o_hidden :: "bool option"

record cell_options =
  o_x :: "int option"
  o_y :: "int option"
  o_background :: "string option"
  o_foreground :: "string option"
  o_display :: "display_options option"

definition no_display_options :: display_options where
  "no_display_options =
     \<lparr>o_bold = None, o_dim = None, o_underlined = None, o_blink = None,
      o_reverse = None, o_hidden = None\<rparr>"

definition no_options :: cell_options where
  "no_options =
     \<lparr>o_x = None, o_y = None, o_background = None, o_foreground = None, o_display = None\<rparr>"

definition Cell_new :: "color_table \<Rightarrow> string option \<Rightarrow> cell_options \<Rightarrow> cell" where
  "Cell_new COLORS char options =
     (let display = default_arg no_display_options (o_display options);
          this = \<lparr>c_char = '' '', c_x = 0, c_y = 0, c_background = ''none'',
                  c_foreground = ''none'',
                  c_display = \<lparr>bold = False, dim = False, underlined = False, blink = False,
                               reverse = False, hidden = False\<rparr>,
                  c_modified = False\<rparr>
      in setModified (Some False)
           (setDisplay (o_bold display) (o_dim display) (o_underlined display)
                       (o_blink display) (o_reverse display) (o_hidden display)
             (setForeground COLORS (o_foreground options)
               (setBackground COLORS (o_background options)
                 (setY (o_y options)
                   (setX (o_x options)
                     (setChar char this)))))))"

section \<open>Cursor.js\<close>

text \<open>The two exceptions the modelled code can raise: calling a method on \<^verbatim>\<open>undefined\<close>,
  and creating an array whose length is not below \<open>2\<^sup>3\<^sup>2\<close>.\<close>

datatype error = TypeError | RangeError

text \<open>
  The fields of a \<^verbatim>\<open>Cursor\<close>: \<^verbatim>\<open>_stream\<close>, \<^verbatim>\<open>_width\<close>, \<^verbatim>\<open>_height\<close>, \<^verbatim>\<open>_x\<close>, \<^verbatim>\<open>_y\<close>,
  \<^verbatim>\<open>_background\<close>, \<^verbatim>\<open>_foreground\<close>, \<^verbatim>\<open>_display\<close>, \<^verbatim>\<open>_cells\<close> and \<^verbatim>\<open>_lastFrame\<close>.
  The output stream is the list of the strings passed to its \<^verbatim>\<open>write\<close>, oldest first.
  Every cell is an object of its own, so the grid is a list of cell values. An entry of
  \<^verbatim>\<open>_lastFrame\<close> is a string, or \<^term>\<open>None\<close> for an element that was never assigned.
\<close>

record cursor =
  cur_stream :: "string list"
  cur_width :: int
  cur_height :: int
  cur_x :: int
  cur_y :: int
  cur_background :: string
  cur_foreground :: string
  cur_display :: display
  cur_cells :: "cell list"
  cur_lastFrame :: "string option list"

text \<open>\<^verbatim>\<open>a[i]\<close> and \<^verbatim>\<open>a[i] = v\<close> on \<^verbatim>\<open>_lastFrame\<close>: a read past the end is
  \<^verbatim>\<open>undefined\<close>, a store past the end extends the array, leaving holes.\<close>

definition lastFrame_at :: "string option list \<Rightarrow> nat \<Rightarrow> string option" where
  "lastFrame_at xs i = (if i < length xs then xs ! i else None)"

definition lastFrame_store :: "string option list \<Rightarrow> nat \<Rightarrow> string \<Rightarrow> string option list" where
  "lastFrame_store xs i v =
     (if i < length xs then xs[i := Some v]
      else xs @ replicate (i - length xs) None @ [Some v])"

text \<open>The constructor, given the stream, \<^verbatim>\<open>width\<close> and \<^verbatim>\<open>height\<close>.
  \<^verbatim>\<open>Array.from({length: n})\<close> has length \<open>0\<close> for a negative \<open>n\<close> and raises
  \<^verbatim>\<open>RangeError\<close> for \<open>n\<close> above \<open>2\<^sup>3\<^sup>2 - 1\<close>.\<close>

definition Cursor_new :: "color_table \<Rightarrow> string list \<Rightarrow> int \<Rightarrow> int \<Rightarrow> error + cursor" where
  "Cursor_new COLORS stream width height =
     (if 4294967295 < width * height then Inl RangeError
      else Inr \<lparr>cur_stream = stream, cur_width = width, cur_height = height,
                cur_x = 0, cur_y = 0,
                cur_background = ''none'', cur_foreground = ''none'',
                cur_display = \<lparr>bold = False, dim = False, underlined = False, blink = False,
                                 reverse = False, hidden = False\<rparr>,
                cur_cells = replicate (nat (width * height)) (Cell_new COLORS None no_options),
                cur_lastFrame = replicate (nat (width * height)) (Some '''')\<rparr>)"

definition getPointerFromXY :: "cursor \<Rightarrow> int option \<Rightarrow> int option \<Rightarrow> int" where
  "getPointerFromXY this x y =
     default_arg (cur_y this) y * cur_width this + default_arg (cur_x this) x"

text \<open>\<^verbatim>\<open>getXYFromPointer\<close>: \<^verbatim>\<open>Math.floor(index / width)\<close> is the integer quotient rounded
  down, which is \<^term>\<open>(div)\<close> on \<^typ>\<open>int\<close>. With a width of \<open>0\<close> the JavaScript result
  holds \<^verbatim>\<open>NaN\<close> or an infinity and is no pair of integers: \<^term>\<open>None\<close>.\<close>

definition getXYFromPointer :: "cursor \<Rightarrow> int \<Rightarrow> (int \<times> int) option" where
  "getXYFromPointer this index =
     (if cur_width this = 0 then None
      else Some (index - (index div cur_width this) * cur_width this,
                 index div cur_width this))"

definition moveTo :: "int \<Rightarrow> int \<Rightarrow> cursor \<Rightarrow> cursor" where
  "moveTo x y this = this\<lparr>cur_x := x, cur_y := y\<rparr>"

definition Cursor_foreground :: "string option \<Rightarrow> cursor \<Rightarrow> cursor" where
  "Cursor_foreground color this = this\<lparr>cur_foreground := default_arg ''none'' color\<rparr>"

definition Cursor_background :: "string option \<Rightarrow> cursor \<Rightarrow> cursor" where
  "Cursor_background color this = this\<lparr>cur_background := default_arg ''none'' color\<rparr>"

text \<open>What the body of the loop of \<^verbatim>\<open>write\<close> does to the cell under the cursor.\<close>

definition write_cell ::
  "color_table \<Rightarrow> string \<Rightarrow> string \<Rightarrow> display \<Rightarrow> string \<Rightarrow> int \<Rightarrow> int \<Rightarrow> cell \<Rightarrow> cell" where
  "write_cell COLORS background foreground display char x y c =
     setModified (Some True)
       (setDisplay (Some (bold display)) (Some (dim display)) (Some (underlined display))
                   (Some (blink display)) (Some (reverse display)) (Some (hidden display))
         (setForeground COLORS (Some foreground)
           (setBackground COLORS (Some background)
             (setY (Some y)
               (setX (Some x)
                 (setChar (Some char) c))))))"

text \<open>The loop of \<^verbatim>\<open>write\<close> over the code units of \<^verbatim>\<open>data\<close> that are still to be
  written. \<^verbatim>\<open>this._cells[pointer]\<close> being \<^verbatim>\<open>undefined\<close> makes the method call raise.\<close>

fun write_loop ::
  "color_table \<Rightarrow> int \<Rightarrow> int \<Rightarrow> string \<Rightarrow> string \<Rightarrow> display \<Rightarrow> string \<Rightarrow> cursor
     \<Rightarrow> error + cursor" where
  "write_loop COLORS width height background foreground display [] this = Inr this"
| "write_loop COLORS width height background foreground display (ch # data) this =
     (let char = [ch]; x = cur_x this; y = cur_y this;
          pointer = getPointerFromXY this (Some x) (Some y)
      in if 0 \<le> x \<and> x < width \<and> 0 \<le> y \<and> y < height
         then (case js_get (cur_cells this) pointer of
                 None \<Rightarrow> Inl TypeError
               | Some c \<Rightarrow>
                   write_loop COLORS width height background foreground display data
                     (this\<lparr>cur_cells := (cur_cells this)
                              [nat pointer := write_cell COLORS background foreground display char x y c],
                           cur_x := cur_x this + 1\<rparr>))
         else write_loop COLORS width height background foreground display data
                (this\<lparr>cur_x := cur_x this + 1\<rparr>))"

text \<open>The method \<^verbatim>\<open>Cursor.write\<close>; it reads width, height and pen once, before the loop.
  (The plain name is a reserved word of the theory language.)\<close>

definition Cursor_write :: "color_table \<Rightarrow> string \<Rightarrow> cursor \<Rightarrow> error + cursor" where
  "Cursor_write COLORS data this =
     write_loop COLORS (cur_width this) (cur_height this) (cur_background this)
       (cur_foreground this) (cur_display this) data this"

text \<open>The loop of \<^verbatim>\<open>flush\<close>, from index \<open>i\<close> on.\<close>

function flush_loop :: "color_table \<Rightarrow> nat \<Rightarrow> cursor \<Rightarrow> cursor" where
  "flush_loop COLORS i this =
     (if i < length (cur_cells this)
      then if isModified (cur_cells this ! i)
           then let cell' = setModified (Some False) (cur_cells this ! i);
                    this1 = this\<lparr>cur_cells := (cur_cells this)[i := cell']\<rparr>;
                    cellSeq = toString COLORS cell'
                in if Some cellSeq \<noteq> lastFrame_at (cur_lastFrame this1) i
                   then flush_loop COLORS (i + 1)
                          (this1\<lparr>cur_lastFrame := lastFrame_store (cur_lastFrame this1) i cellSeq,
                                 cur_stream := cur_stream this1 @ [cellSeq]\<rparr>)
                   else flush_loop COLORS (i + 1) this1
           else flush_loop COLORS (i + 1) this
      else this)"
  by pat_completeness auto
termination
  by (relation "measure (\<lambda>(COLORS, i, this). length (cur_cells this) - i)") auto

declare flush_loop.simps [simp del]

definition flush :: "color_table \<Rightarrow> cursor \<Rightarrow> cursor" where
  "flush COLORS this = flush_loop COLORS 0 this"

text \<open>The inner loop of \<^verbatim>\<open>erase\<close> (over \<open>x\<close>, in row \<open>y\<close>) and its outer loop (over \<open>y\<close>).\<close>

function erase_x :: "color_table \<Rightarrow> int \<Rightarrow> int \<Rightarrow> int \<Rightarrow> cursor \<Rightarrow> cursor" where
  "erase_x COLORS y x x2 this =
     (if x \<le> x2
      then let pointer = getPointerFromXY this (Some x) (Some y)
           in erase_x COLORS y (x + 1) x2
                (case js_get (cur_cells this) pointer of
                   None \<Rightarrow> this
                 | Some c \<Rightarrow> this\<lparr>cur_cells := (cur_cells this)[nat pointer := Cell_reset COLORS c]\<rparr>)
      else this)"
  by pat_completeness auto
termination
  by (relation "measure (\<lambda>(COLORS, y, x, x2, this). nat (x2 + 1 - x))") auto

declare erase_x.simps [simp del]

function erase_y :: "color_table \<Rightarrow> int \<Rightarrow> int \<Rightarrow> int \<Rightarrow> int \<Rightarrow> cursor \<Rightarrow> cursor" where
  "erase_y COLORS x1 x2 y y2 this =
     (if y \<le> y2 then erase_y COLORS x1 x2 (y + 1) y2 (erase_x COLORS y x1 x2 this) else this)"
  by pat_completeness auto
termination
  by (relation "measure (\<lambda>(COLORS, x1, x2, y, y2, this). nat (y2 + 1 - y))") auto

declare erase_y.simps [simp del]

definition erase :: "color_table \<Rightarrow> int \<Rightarrow> int \<Rightarrow> int \<Rightarrow> int \<Rightarrow> cursor \<Rightarrow> cursor" where
  "erase COLORS x1 y1 x2 y2 this = erase_y COLORS x1 x2 y1 y2 this"

text \<open>The invariant of the data model: grid and shadow both have
  \<open>width * height\<close> entries.\<close>

definition wf_cursor :: "cursor \<Rightarrow> bool" where
  "wf_cursor this =
     (length (cur_cells this) = nat (cur_width this * cur_height this) \<and>
      length (cur_lastFrame this) = nat (cur_width this * cur_height this))"

text \<open>A screen of three columns and two rows over the example table, as
  \<^verbatim>\<open>new Cursor({stream, width: 3, height: 2})\<close> builds it; it serves as the concrete
  input of the examples below.\<close>

definition example_cell :: cell where
  "example_cell =
     \<lparr>c_char = '' '', c_x = 0, c_y = 0, c_background = ''none'', c_foreground = ''none'',
      c_display = \<lparr>bold = False, dim = False, underlined = False, blink = False,
                   reverse = False, hidden = False\<rparr>,
      c_modified = False\<rparr>"

definition example_screen :: cursor where
  "example_screen =
     \<lparr>cur_stream = [], cur_width = 3, cur_height = 2, cur_x = 0, cur_y = 0,
      cur_background = ''none'', cur_foreground = ''none'',
      cur_display = \<lparr>bold = False, dim = False, underlined = False, blink = False,
                       reverse = False, hidden = False\<rparr>,
      cur_cells = replicate 6 example_cell,
      cur_lastFrame = replicate 6 (Some '''')\<rparr>"

text \<open>The example screen after \<^verbatim>\<open>moveTo(1, 1).write('Hi')\<close>: the two cells of the
  second row that follow its first are written and dirty.\<close>

definition written_screen :: cursor where
  "written_screen =
     example_screen
       \<lparr>cur_x := 3, cur_y := 1,
        cur_cells :=
          replicate 4 example_cell @
          [example_cell\<lparr>c_char := ''H'', c_x := 1, c_y := 1, c_modified := True\<rparr>,
           example_cell\<lparr>c_char := ''i'', c_x := 2, c_y := 1, c_modified := True\<rparr>]\<rparr>"

section \<open>The wire format of the specification\<close>

text \<open>
  The rendering of a cell in the words of the specification: the absolute position
  \<^verbatim>\<open>ESC[<row>;<col>f\<close>, the background \<^verbatim>\<open>ESC[48;5;<code>m\<close> and the foreground
  \<^verbatim>\<open>ESC[38;5;<code>m\<close> unless they are \<^verbatim>\<open>none\<close>, one code for each style flag that is
  set, in the order bold, dim, underlined, blink, reverse, hidden, then the character and
  the full reset \<^verbatim>\<open>ESC[0m\<close>. \<^verbatim>\<open>ESC\<close> is the byte \<open>0x1B\<close>.
\<close>

definition position_seq :: "int \<Rightarrow> int \<Rightarrow> string" where
  "position_seq row col =
     [CHR 0x1B] @ ''['' @ Number_toString row @ '';'' @ Number_toString col @ ''f''"

definition background_seq :: "color_table \<Rightarrow> string \<Rightarrow> string" where
  "background_seq COLORS name = [CHR 0x1B] @ ''[48;5;'' @ color_code COLORS name @ ''m''"

definition foreground_seq :: "color_table \<Rightarrow> string \<Rightarrow> string" where
  "foreground_seq COLORS name = [CHR 0x1B] @ ''[38;5;'' @ color_code COLORS name @ ''m''"

definition style_codes :: "((display \<Rightarrow> bool) \<times> string) list" where
  "style_codes =
     [(bold, CHR 0x1B # ''[1m''), (dim, CHR 0x1B # ''[2m''), (underlined, CHR 0x1B # ''[4m''),
      (blink, CHR 0x1B # ''[5m''), (reverse, CHR 0x1B # ''[7m''), (hidden, CHR 0x1B # ''[8m'')]"

definition render_spec :: "color_table \<Rightarrow> cell \<Rightarrow> string" where
  "render_spec COLORS c =
     position_seq (c_y c + 1) (c_x c + 1) @
     (if c_background c = ''none'' then [] else background_seq COLORS (c_background c)) @
     (if c_foreground c = ''none'' then [] else foreground_seq COLORS (c_foreground c)) @
     concat (map snd (filter (\<lambda>flag_code. fst flag_code (c_display c)) style_codes)) @
     c_char c @
     CHR 0x1B # ''[0m''"

section \<open>One iteration of the loops\<close>

text \<open>The body of the loop of \<^verbatim>\<open>flush\<close> at index \<open>i\<close>, as a function of its own.\<close>

definition flush_step :: "color_table \<Rightarrow> nat \<Rightarrow> cursor \<Rightarrow> cursor" where
  "flush_step COLORS i this =
     (if isModified (cur_cells this ! i)
      then let cell' = setModified (Some False) (cur_cells this ! i);
               this1 = this\<lparr>cur_cells := (cur_cells this)[i := cell']\<rparr>;
               cellSeq = toString COLORS cell'
           in if Some cellSeq \<noteq> lastFrame_at (cur_lastFrame this1) i
              then this1\<lparr>cur_lastFrame := lastFrame_store (cur_lastFrame this1) i cellSeq,
                         cur_stream := cur_stream this1 @ [cellSeq]\<rparr>
              else this1
      else this)"

text \<open>What one visit of \<^verbatim>\<open>flush\<close> leaves in the shadow entry \<open>e\<close> of a cell \<open>c\<close>, and
  what it writes to the stream, in the words of the specification: a clean cell is
  skipped; a dirty cell is rendered, and the rendering is stored and written exactly when
  it differs from the shadow entry.\<close>

definition shadow_after :: "color_table \<Rightarrow> cell \<Rightarrow> string option \<Rightarrow> string option" where
  "shadow_after COLORS c e =
     (if isModified c \<and> Some (toString COLORS c) \<noteq> e then Some (toString COLORS c) else e)"

definition emitted :: "color_table \<Rightarrow> cell \<Rightarrow> string option \<Rightarrow> string list" where
  "emitted COLORS c e =
     (if isModified c \<and> Some (toString COLORS c) \<noteq> e then [toString COLORS c] else [])"

text \<open>The grid that \<^verbatim>\<open>write(data)\<close> leaves, position by position: with the cursor
  at \<open>(x, y)\<close>, code unit \<open>k\<close> of \<^verbatim>\<open>data\<close> lands at index \<open>y * w + x + k\<close> when
  \<open>(x + k, y)\<close> is inside the grid.\<close>

definition written_cells ::
  "color_table \<Rightarrow> int \<Rightarrow> int \<Rightarrow> string \<Rightarrow> string \<Rightarrow> display \<Rightarrow> string \<Rightarrow> int \<Rightarrow> int
     \<Rightarrow> cell list \<Rightarrow> cell list" where
  "written_cells COLORS w h bg fg d data x y cells =
     map (\<lambda>p. let k = int p - (y * w + x)
              in if 0 \<le> y \<and> y < h \<and> 0 \<le> k \<and> k < int (length data) \<and> 0 \<le> x + k \<and> x + k < w
                 then write_cell COLORS bg fg d [data ! nat k] (x + k) y (cells ! p)
                 else cells ! p)
       [0..<length cells]"

text \<open>The body of the inner loop of \<^verbatim>\<open>erase\<close> for the index \<open>pointer\<close>.\<close>

definition erase_cell :: "color_table \<Rightarrow> int \<Rightarrow> cursor \<Rightarrow> cursor" where
  "erase_cell COLORS pointer this =
     (case js_get (cur_cells this) pointer of
        None \<Rightarrow> this
      | Some c \<Rightarrow> this\<lparr>cur_cells := (cur_cells this)[nat pointer := Cell_reset COLORS c]\<rparr>)"

text \<open>The grid in which the cells at the indices that satisfy \<open>P\<close> are reset.\<close>

definition reset_where :: "color_table \<Rightarrow> (int \<Rightarrow> bool) \<Rightarrow> cell list \<Rightarrow> cell list" where
  "reset_where COLORS P cells =
     map (\<lambda>p. if P (int p) then Cell_reset COLORS (cells ! p) else cells ! p) [0..<length cells]"

section \<open>Properties of a cell\<close>

lemma toUpperCase_black: "toUpperCase ''black'' = ''BLACK''"
  by code_simp

lemma toUpperCase_none: "toUpperCase ''none'' = ''NONE''"
  by code_simp

lemma example_cell_new: "Cell_new COLORS_example None no_options = example_cell"
  by (simp add: Cell_new_def example_cell_def no_options_def no_display_options_def
      setModified_def setDisplay_def setForeground_def setBackground_def setX_def setY_def
      setChar_def default_arg_def toUpperCase_none COLORS_example_def truthy_def)

lemma example_screen_new: "Cursor_new COLORS_example [] 3 2 = Inr example_screen"
  by (simp add: Cursor_new_def example_screen_def example_cell_new)

text \<open>
  What \<^verbatim>\<open>setBackground\<close> and \<^verbatim>\<open>setForeground\<close> store, for every table and every
  ASCII name: the upper-cased name when the table's entry for it is truthy, and \<^verbatim>\<open>none\<close>
  otherwise. Nothing is raised.
\<close>

lemma setBackground_stores:
  "is_ascii name \<Longrightarrow>
   setBackground COLORS (Some name) c =
     c\<lparr>c_background := (if truthy (COLORS (toUpperCase name)) then toUpperCase name else ''none'')\<rparr>"
  by (simp add: setBackground_def default_arg_def)

lemma setForeground_stores:
  "is_ascii name \<Longrightarrow>
   setForeground COLORS (Some name) c =
     c\<lparr>c_foreground := (if truthy (COLORS (toUpperCase name)) then toUpperCase name else ''none'')\<rparr>"
  by (simp add: setForeground_def default_arg_def)

text \<open>In particular a name whose entry is a code other than \<open>0\<close> is stored upper-cased,
  and a name that is no key of the table is stored as \<^verbatim>\<open>none\<close>.\<close>

lemma setBackground_known:
  "is_ascii name \<Longrightarrow> COLORS (toUpperCase name) = Some n \<Longrightarrow> n \<noteq> 0 \<Longrightarrow>
   c_background (setBackground COLORS (Some name) c) = toUpperCase name"
  by (simp add: setBackground_def default_arg_def truthy_def)

lemma setBackground_unknown:
  "is_ascii name \<Longrightarrow> COLORS (toUpperCase name) = None \<Longrightarrow>
   c_background (setBackground COLORS (Some name) c) = ''none''"
  by (simp add: setBackground_def default_arg_def truthy_def)

lemma setForeground_known:
  "is_ascii name \<Longrightarrow> COLORS (toUpperCase name) = Some n \<Longrightarrow> n \<noteq> 0 \<Longrightarrow>
   c_foreground (setForeground COLORS (Some name) c) = toUpperCase name"
  by (simp add: setForeground_def default_arg_def truthy_def)

lemma setForeground_unknown:
  "is_ascii name \<Longrightarrow> COLORS (toUpperCase name) = None \<Longrightarrow>
   c_foreground (setForeground COLORS (Some name) c) = ''none''"
  by (simp add: setForeground_def default_arg_def truthy_def)

text \<open>
  C5. \<^verbatim>\<open>setBackground(name)\<close> and \<^verbatim>\<open>setForeground(name)\<close> are to store the upper-cased
  name whenever it is a key of the colour table, also for a colour whose code is \<open>0\<close>.
  The code tests the entry for truthiness, so with \<open>BLACK = 0\<close> the name \<^verbatim>\<open>black\<close> is
  stored as \<^verbatim>\<open>none\<close>, on both channels.
\<close>

theorem setBackground_black_is_none:
  "COLORS_example ''BLACK'' = Some 0 \<and>
   c_background (setBackground COLORS_example (Some ''black'') example_cell) = ''none'' \<and>
   c_foreground (setForeground COLORS_example (Some ''black'') example_cell) = ''none''"
  by (simp add: setBackground_def setForeground_def default_arg_def toUpperCase_black
      COLORS_example_def truthy_def)

text \<open>
  C6. For every cell and colour table, \<^verbatim>\<open>toString\<close> returns the rendering the
  specification describes: position of row \<open>y + 1\<close> and column \<open>x + 1\<close>, background and
  foreground codes unless \<^verbatim>\<open>none\<close>, the codes of the set style flags in the fixed order,
  the character, the reset code.
\<close>

theorem toString_render: "toString COLORS c = render_spec COLORS c"
  by (simp add: toString_def render_spec_def Let_def getChar_def getX_def getY_def
      getBackground_def getForeground_def getDisplay_def encodeToVT100_def ESC_def
      position_seq_def background_seq_def foreground_seq_def style_codes_def
      BOLD_def DIM_def UNDERLINED_def BLINK_def REVERSE_def HIDDEN_def RESET_ALL_def)

text \<open>The cell of the repository's own rendering test, at column 20 and row 10 with every
  style set, renders to the string that test expects.\<close>

theorem toString_render_witness:
  "toString COLORS_example
     \<lparr>c_char = '' '', c_x = 20, c_y = 10, c_background = ''BLACK'', c_foreground = ''WHITE'',
      c_display = \<lparr>bold = True, dim = True, underlined = True, blink = True,
                   reverse = True, hidden = True\<rparr>,
      c_modified = False\<rparr> =
   CHR 0x1B # ''[11;21f'' @ CHR 0x1B # ''[48;5;0m'' @ CHR 0x1B # ''[38;5;15m'' @
   CHR 0x1B # ''[1m'' @ CHR 0x1B # ''[2m'' @ CHR 0x1B # ''[4m'' @ CHR 0x1B # ''[5m'' @
   CHR 0x1B # ''[7m'' @ CHR 0x1B # ''[8m'' @ '' '' @ CHR 0x1B # ''[0m''"
  by (simp only: toString_render) code_simp

text \<open>
  C7, as amended. \<^verbatim>\<open>setChar(c)\<close> stores the first code unit of \<open>c\<close>, so
  \<^verbatim>\<open>setChar("hello")\<close> gives the character \<^verbatim>\<open>h\<close>; it stores the default \<^verbatim>\<open>' '\<close> when
  \<open>c\<close> is omitted; and for the empty string it stores the empty string. No other field
  of the cell changes.
\<close>

theorem setChar_first_unit:
  "setChar None c = c\<lparr>c_char := '' ''\<rparr> \<and>
   setChar (Some s) c = c\<lparr>c_char := (case s of [] \<Rightarrow> [] | u # rest \<Rightarrow> [u])\<rparr> \<and>
   c_char (setChar (Some ''hello'') c) = ''h'' \<and>
   c_char (setChar (Some '''') c) = ''''"
  by (simp add: setChar_def default_arg_def split: list.split)

text \<open>C7 as stated fails on the empty string: the default of a JavaScript parameter
  replaces \<^verbatim>\<open>undefined\<close> only, and the stored character is then empty, not a space.\<close>

theorem setChar_empty_counterexample:
  "c_char (setChar (Some '''') example_cell) \<noteq> '' ''"
  by (simp add: setChar_def default_arg_def)

section \<open>Properties of the coordinate mapping\<close>

text \<open>
  C8. \<^verbatim>\<open>getPointerFromXY(x, y)\<close> is \<open>y * width + x\<close> (the cursor position being the
  default), \<^verbatim>\<open>getXYFromPointer(i)\<close> is \<open>(i mod width, i div width)\<close>, and for every
  \<open>(x, y)\<close> with \<open>0 \<le> x < width\<close> and \<open>0 \<le> y < height\<close> the second undoes the first.
\<close>

theorem coordinate_round_trip:
  "getPointerFromXY this (Some x) (Some y) = y * cur_width this + x \<and>
   getPointerFromXY this None None = cur_y this * cur_width this + cur_x this \<and>
   (cur_width this \<noteq> 0 \<longrightarrow>
      getXYFromPointer this i = Some (i mod cur_width this, i div cur_width this)) \<and>
   (0 \<le> x \<and> x < cur_width this \<and> 0 \<le> y \<and> y < cur_height this \<longrightarrow>
      getXYFromPointer this (getPointerFromXY this (Some x) (Some y)) = Some (x, y))"
  by (auto simp: getPointerFromXY_def getXYFromPointer_def default_arg_def minus_div_mult_eq_mod)

theorem coordinate_round_trip_witness:
  "cur_width example_screen \<noteq> 0 \<and>
   (0::int) \<le> 2 \<and> 2 < cur_width example_screen \<and> (0::int) \<le> 1 \<and> 1 < cur_height example_screen \<and>
   getPointerFromXY example_screen (Some 2) (Some 1) = 5 \<and>
   getXYFromPointer example_screen 5 = Some (2, 1) \<and>
   getXYFromPointer example_screen (getPointerFromXY example_screen (Some 2) (Some 1)) = Some (2, 1)"
  using coordinate_round_trip [of example_screen 2 1 5] by (simp add: example_screen_def)

section \<open>The example screens\<close>

lemma wf_example_screen: "wf_cursor example_screen"
  by (simp add: wf_cursor_def example_screen_def)

lemma wf_written_screen: "wf_cursor written_screen"
  by (simp add: wf_cursor_def written_screen_def example_screen_def)

section \<open>Properties of flush\<close>


lemma flush_loop_step:
  "i < length (cur_cells this) \<Longrightarrow>
     flush_loop COLORS i this = flush_loop COLORS (Suc i) (flush_step COLORS i this)"
  by (subst flush_loop.simps) (simp add: flush_step_def Let_def)

lemma flush_loop_done:
  "\<not> i < length (cur_cells this) \<Longrightarrow> flush_loop COLORS i this = this"
  by (subst flush_loop.simps) simp

lemma clear_clean: "\<not> c_modified c \<Longrightarrow> c\<lparr>c_modified := False\<rparr> = c"
  by (cases c) simp

lemma toString_modified [simp]: "toString COLORS (c\<lparr>c_modified := b\<rparr>) = toString COLORS c"
  by (simp add: toString_def getChar_def getX_def getY_def getBackground_def getForeground_def
      getDisplay_def)

lemma cells_flush_step:
  "cur_cells (flush_step COLORS i this) =
     (cur_cells this)[i := (cur_cells this ! i)\<lparr>c_modified := False\<rparr>]"
  by (simp add: flush_step_def Let_def setModified_def default_arg_def isModified_def clear_clean)

lemma lastFrame_flush_step:
  "i < length (cur_lastFrame this) \<Longrightarrow>
   cur_lastFrame (flush_step COLORS i this) =
     (cur_lastFrame this)
       [i := (if isModified (cur_cells this ! i) \<and>
                 Some (toString COLORS (cur_cells this ! i)) \<noteq> cur_lastFrame this ! i
              then Some (toString COLORS (cur_cells this ! i)) else cur_lastFrame this ! i)]"
  by (simp add: flush_step_def Let_def setModified_def default_arg_def lastFrame_at_def
      lastFrame_store_def)

lemma stream_flush_step:
  "i < length (cur_lastFrame this) \<Longrightarrow>
   cur_stream (flush_step COLORS i this) =
     cur_stream this @
       (if isModified (cur_cells this ! i) \<and>
           Some (toString COLORS (cur_cells this ! i)) \<noteq> cur_lastFrame this ! i
        then [toString COLORS (cur_cells this ! i)] else [])"
  by (simp add: flush_step_def Let_def setModified_def default_arg_def lastFrame_at_def
      lastFrame_store_def)

lemma pen_flush_step:
  "cur_width (flush_step COLORS i this) = cur_width this"
  "cur_height (flush_step COLORS i this) = cur_height this"
  "cur_x (flush_step COLORS i this) = cur_x this"
  "cur_y (flush_step COLORS i this) = cur_y this"
  "cur_background (flush_step COLORS i this) = cur_background this"
  "cur_foreground (flush_step COLORS i this) = cur_foreground this"
  "cur_display (flush_step COLORS i this) = cur_display this"
  by (simp_all add: flush_step_def Let_def)

lemma flush_loop_clean:
  "\<forall>j. i \<le> j \<and> j < length (cur_cells this) \<longrightarrow> \<not> isModified (cur_cells this ! j) \<Longrightarrow>
     flush_loop COLORS i this = this"
proof (induction "length (cur_cells this) - i" arbitrary: i)
  case 0
  then show ?case by (simp add: flush_loop_done)
next
  case (Suc n)
  then have lt: "i < length (cur_cells this)" by simp
  then have "flush_step COLORS i this = this"
    using Suc.prems by (simp add: flush_step_def)
  moreover have "flush_loop COLORS (Suc i) this = this"
    using Suc.hyps(1) [of "Suc i"] Suc.hyps(2) Suc.prems by simp
  ultimately show ?case using lt by (simp add: flush_loop_step)
qed

lemma cells_flush_loop:
  "cur_cells (flush_loop COLORS i this) =
     take i (cur_cells this) @ map (\<lambda>c. c\<lparr>c_modified := False\<rparr>) (drop i (cur_cells this))"
proof (induction "length (cur_cells this) - i" arbitrary: i this)
  case 0
  then show ?case by (simp add: flush_loop_done)
next
  case (Suc n)
  then have lt: "i < length (cur_cells this)" by simp
  have "cur_cells (flush_loop COLORS (Suc i) (flush_step COLORS i this)) =
          take (Suc i) (cur_cells (flush_step COLORS i this)) @
          map (\<lambda>c. c\<lparr>c_modified := False\<rparr>) (drop (Suc i) (cur_cells (flush_step COLORS i this)))"
    using Suc.hyps(2) by (intro Suc.hyps(1)) (simp add: cells_flush_step)
  then show ?case
    using lt
    by (simp add: flush_loop_step cells_flush_step take_Suc_conv_app_nth upd_conv_take_nth_drop
        Cons_nth_drop_Suc [symmetric])
qed


lemma length_lastFrame_flush_step:
  "i < length (cur_lastFrame this) \<Longrightarrow>
     length (cur_lastFrame (flush_step COLORS i this)) = length (cur_lastFrame this)"
  by (simp add: lastFrame_flush_step)

lemma lastFrame_flush_loop:
  "length (cur_lastFrame this) = length (cur_cells this) \<Longrightarrow>
   cur_lastFrame (flush_loop COLORS i this) =
     take i (cur_lastFrame this) @
     map2 (shadow_after COLORS) (drop i (cur_cells this)) (drop i (cur_lastFrame this))"
proof (induction "length (cur_cells this) - i" arbitrary: i this)
  case 0
  then show ?case by (simp add: flush_loop_done)
next
  case (Suc n)
  then have lt: "i < length (cur_cells this)" and lt': "i < length (cur_lastFrame this)"
    by simp_all
  let ?s = "flush_step COLORS i this"
  have len: "length (cur_lastFrame ?s) = length (cur_cells ?s)"
    using lt' Suc.prems by (simp add: lastFrame_flush_step cells_flush_step)
  have "n = length (cur_cells ?s) - Suc i"
    using Suc.hyps(2) by (simp add: cells_flush_step)
  from Suc.hyps(1) [OF this len]
  show ?case
    using lt lt'
    by (simp add: flush_loop_step cells_flush_step lastFrame_flush_step take_Suc_conv_app_nth
        upd_conv_take_nth_drop Cons_nth_drop_Suc [symmetric] shadow_after_def)
qed

lemma stream_flush_loop:
  "length (cur_lastFrame this) = length (cur_cells this) \<Longrightarrow>
   cur_stream (flush_loop COLORS i this) =
     cur_stream this @
     concat (map2 (emitted COLORS) (drop i (cur_cells this)) (drop i (cur_lastFrame this)))"
proof (induction "length (cur_cells this) - i" arbitrary: i this)
  case 0
  then show ?case by (simp add: flush_loop_done)
next
  case (Suc n)
  then have lt: "i < length (cur_cells this)" and lt': "i < length (cur_lastFrame this)"
    by simp_all
  let ?s = "flush_step COLORS i this"
  have len: "length (cur_lastFrame ?s) = length (cur_cells ?s)"
    using lt' Suc.prems by (simp add: lastFrame_flush_step cells_flush_step)
  have "n = length (cur_cells ?s) - Suc i"
    using Suc.hyps(2) by (simp add: cells_flush_step)
  from Suc.hyps(1) [OF this len]
  show ?case
    using lt lt'
    by (simp add: flush_loop_step cells_flush_step lastFrame_flush_step stream_flush_step
        Cons_nth_drop_Suc [symmetric] emitted_def)
qed

lemma pen_flush_loop:
  "cur_width (flush_loop COLORS i this) = cur_width this \<and>
   cur_height (flush_loop COLORS i this) = cur_height this \<and>
   cur_x (flush_loop COLORS i this) = cur_x this \<and>
   cur_y (flush_loop COLORS i this) = cur_y this \<and>
   cur_background (flush_loop COLORS i this) = cur_background this \<and>
   cur_foreground (flush_loop COLORS i this) = cur_foreground this \<and>
   cur_display (flush_loop COLORS i this) = cur_display this"
proof (induction "length (cur_cells this) - i" arbitrary: i this)
  case 0
  then show ?case by (simp add: flush_loop_done)
next
  case (Suc n)
  then have lt: "i < length (cur_cells this)" by simp
  have "n = length (cur_cells (flush_step COLORS i this)) - Suc i"
    using Suc.hyps(2) by (simp add: cells_flush_step)
  from Suc.hyps(1) [OF this] show ?case
    using lt by (simp add: flush_loop_step pen_flush_step)
qed

text \<open>
  C1. On a screen whose grid and shadow have \<open>width * height\<close> entries, \<^verbatim>\<open>flush()\<close>
  visits the positions in index order: every cell ends with its dirty flag cleared and is
  otherwise unchanged; the shadow entry of a position is replaced by the rendering of its
  cell exactly when the cell was dirty and the rendering differs from that entry; and
  exactly these renderings are appended to the stream, ordered by index. A clean cell, and
  a dirty cell whose rendering equals its shadow entry, produce no output and keep the
  shadow entry.
\<close>

theorem flush_protocol:
  assumes "wf_cursor this"
  shows "cur_cells (flush COLORS this) = map (\<lambda>c. c\<lparr>c_modified := False\<rparr>) (cur_cells this) \<and>
         cur_lastFrame (flush COLORS this) =
           map2 (shadow_after COLORS) (cur_cells this) (cur_lastFrame this) \<and>
         cur_stream (flush COLORS this) =
           cur_stream this @ concat (map2 (emitted COLORS) (cur_cells this) (cur_lastFrame this)) \<and>
         (\<forall>i < nat (cur_width this * cur_height this).
            cur_cells (flush COLORS this) ! i = (cur_cells this ! i)\<lparr>c_modified := False\<rparr> \<and>
            cur_lastFrame (flush COLORS this) ! i =
              (if isModified (cur_cells this ! i) \<and>
                  Some (toString COLORS (cur_cells this ! i)) \<noteq> cur_lastFrame this ! i
               then Some (toString COLORS (cur_cells this ! i))
               else cur_lastFrame this ! i))"
proof -
  from assms have len: "length (cur_lastFrame this) = length (cur_cells this)"
    and n: "length (cur_cells this) = nat (cur_width this * cur_height this)"
    by (simp_all add: wf_cursor_def)
  have cells: "cur_cells (flush COLORS this) = map (\<lambda>c. c\<lparr>c_modified := False\<rparr>) (cur_cells this)"
    by (simp add: flush_def cells_flush_loop)
  have shadow: "cur_lastFrame (flush COLORS this) =
                  map2 (shadow_after COLORS) (cur_cells this) (cur_lastFrame this)"
    using lastFrame_flush_loop [OF len, of COLORS 0] by (simp add: flush_def)
  have out: "cur_stream (flush COLORS this) =
               cur_stream this @ concat (map2 (emitted COLORS) (cur_cells this) (cur_lastFrame this))"
    using stream_flush_loop [OF len, of COLORS 0] by (simp add: flush_def)
  have "\<forall>i < nat (cur_width this * cur_height this).
            cur_cells (flush COLORS this) ! i = (cur_cells this ! i)\<lparr>c_modified := False\<rparr> \<and>
            cur_lastFrame (flush COLORS this) ! i =
              (if isModified (cur_cells this ! i) \<and>
                  Some (toString COLORS (cur_cells this ! i)) \<noteq> cur_lastFrame this ! i
               then Some (toString COLORS (cur_cells this ! i))
               else cur_lastFrame this ! i)"
    unfolding cells shadow using len n by (simp add: shadow_after_def)
  with cells shadow out show ?thesis by blast
qed

theorem flush_protocol_witness:
  "wf_cursor written_screen \<and>
   cur_stream (flush COLORS_example written_screen) =
     [CHR 0x1B # ''[2;2fH'' @ CHR 0x1B # ''[0m'', CHR 0x1B # ''[2;3fi'' @ CHR 0x1B # ''[0m''] \<and>
   cur_lastFrame (flush COLORS_example written_screen) =
     [Some '''', Some '''', Some '''', Some '''',
      Some (CHR 0x1B # ''[2;2fH'' @ CHR 0x1B # ''[0m''),
      Some (CHR 0x1B # ''[2;3fi'' @ CHR 0x1B # ''[0m'')] \<and>
   map isModified (cur_cells (flush COLORS_example written_screen)) =
     [False, False, False, False, False, False]"
proof -
  note p = flush_protocol [OF wf_written_screen, of COLORS_example]
  have 1: "cur_stream written_screen @
           concat (map2 (emitted COLORS_example) (cur_cells written_screen)
                    (cur_lastFrame written_screen)) =
           [CHR 0x1B # ''[2;2fH'' @ CHR 0x1B # ''[0m'', CHR 0x1B # ''[2;3fi'' @ CHR 0x1B # ''[0m'']"
    by code_simp
  have 2: "map2 (shadow_after COLORS_example) (cur_cells written_screen)
             (cur_lastFrame written_screen) =
           [Some '''', Some '''', Some '''', Some '''',
            Some (CHR 0x1B # ''[2;2fH'' @ CHR 0x1B # ''[0m''),
            Some (CHR 0x1B # ''[2;3fi'' @ CHR 0x1B # ''[0m'')]"
    by code_simp
  have 3: "map isModified (map (\<lambda>c. c\<lparr>c_modified := False\<rparr>) (cur_cells written_screen)) =
           [False, False, False, False, False, False]"
    by code_simp
  from p 1 2 3 wf_written_screen show ?thesis by simp
qed



section \<open>Properties of a fresh screen\<close>

lemma Cell_new_clean: "\<not> isModified (Cell_new COLORS char options)"
  by (simp add: Cell_new_def Let_def setModified_def default_arg_def isModified_def)

text \<open>
  C9. The \<^verbatim>\<open>Cell\<close> constructor leaves the dirty flag false whatever its arguments.
  So, whenever the constructor of the screen returns (the grid has at most
  \<open>2\<^sup>3\<^sup>2 - 1\<close> cells), no cell of the new screen is dirty, \<^verbatim>\<open>flush()\<close> on it changes
  nothing and writes nothing to the stream, and every shadow entry is still the empty
  string.
\<close>

theorem fresh_screen_flush:
  "\<not> isModified (Cell_new COLORS char options) \<and>
   (width * height \<le> 4294967295 \<longrightarrow>
     (\<exists>this. Cursor_new COLORS stream width height = Inr this \<and>
        wf_cursor this \<and>
        (\<forall>c \<in> set (cur_cells this). \<not> isModified c) \<and>
        flush COLORS this = this \<and>
        cur_stream (flush COLORS this) = stream \<and>
        cur_lastFrame (flush COLORS this) = replicate (nat (width * height)) (Some '''')))"
proof -
  have "flush COLORS this = this"
    if "Cursor_new COLORS stream width height = Inr this" for this
  proof -
    from that have "\<forall>c \<in> set (cur_cells this). \<not> isModified c"
      by (auto simp: Cursor_new_def Cell_new_clean split: if_splits)
    then show ?thesis
      unfolding flush_def by (intro flush_loop_clean) simp
  qed
  then show ?thesis
    by (auto simp: Cell_new_clean Cursor_new_def wf_cursor_def)
qed

theorem fresh_screen_flush_witness:
  "(3::int) * 2 \<le> 4294967295 \<and>
   Cursor_new COLORS_example [] 3 2 = Inr example_screen \<and>
   cur_stream (flush COLORS_example example_screen) = [] \<and>
   cur_lastFrame (flush COLORS_example example_screen) =
     [Some '''', Some '''', Some '''', Some '''', Some '''', Some '''']"
  using fresh_screen_flush [of COLORS_example None no_options 3 2 "[]"]
  by (simp add: example_screen_new example_screen_def numeral_eq_Suc)

section \<open>Properties of write\<close>

lemma pointer_in_grid:
  fixes x y w h :: int
  assumes "0 \<le> x" "x < w" "0 \<le> y" "y < h"
  shows "0 \<le> y * w + x" and "y * w + x < w * h"
proof -
  from assms show "0 \<le> y * w + x" by simp
  have "y * w + x < (y + 1) * w" using assms by (simp add: algebra_simps)
  also have "\<dots> \<le> h * w" using assms by (intro mult_right_mono) simp_all
  finally show "y * w + x < w * h" by (simp add: mult.commute)
qed

lemma written_cells_Nil: "written_cells COLORS w h bg fg d [] x y cells = cells"
  by (rule nth_equalityI) (auto simp add: written_cells_def Let_def)

lemma length_written_cells [simp]:
  "length (written_cells COLORS w h bg fg d data x y cells) = length cells"
  by (simp add: written_cells_def)

lemma written_cells_nth:
  "p < length cells \<Longrightarrow> q = y * w + x \<Longrightarrow>
   written_cells COLORS w h bg fg d data x y cells ! p =
     (if 0 \<le> y \<and> y < h \<and> q \<le> int p \<and> int p - q < int (length data) \<and>
         0 \<le> x + (int p - q) \<and> x + (int p - q) < w
      then write_cell COLORS bg fg d [data ! nat (int p - q)] (x + (int p - q)) y (cells ! p)
      else cells ! p)"
  by (simp add: written_cells_def Let_def)

lemma written_cells_Cons_in:
  assumes "0 \<le> x" "x < w" "0 \<le> y" "y < h"
  shows "written_cells COLORS w h bg fg d data (x + 1) y
           (cells[nat (y * w + x) := write_cell COLORS bg fg d [ch] x y (cells ! nat (y * w + x))]) =
         written_cells COLORS w h bg fg d (ch # data) x y cells"
proof -
  define q where "q = y * w + x"
  have q1: "q + 1 = y * w + (x + 1)" by (simp add: q_def)
  from assms have q0: "0 \<le> q" by (simp add: q_def)
  let ?cells1 = "cells[nat q := write_cell COLORS bg fg d [ch] x y (cells ! nat q)]"
  have "written_cells COLORS w h bg fg d data (x + 1) y ?cells1 =
        written_cells COLORS w h bg fg d (ch # data) x y cells"
  proof (rule nth_equalityI)
    show "length (written_cells COLORS w h bg fg d data (x + 1) y ?cells1) =
          length (written_cells COLORS w h bg fg d (ch # data) x y cells)"
      by simp
  next
    fix p
    assume "p < length (written_cells COLORS w h bg fg d data (x + 1) y ?cells1)"
    then have p: "p < length cells" by simp
    then have p1: "p < length ?cells1" by simp
    note l = written_cells_nth [OF p1 q1, of COLORS h bg fg d data]
    note r = written_cells_nth [OF p q_def, of COLORS h bg fg d "ch # data"]
    consider "int p = q" | "int p < q" | "q < int p" by linarith
    then show "written_cells COLORS w h bg fg d data (x + 1) y ?cells1 ! p =
               written_cells COLORS w h bg fg d (ch # data) x y cells ! p"
    proof cases
      case 1
      then have "nat q = p" by simp
      with 1 p assms show ?thesis unfolding l r by simp
    next
      case 2
      then have "nat q \<noteq> p" using q0 by arith
      with 2 p show ?thesis unfolding l r by simp
    next
      case 3
      then have ne: "nat q \<noteq> p" using q0 by arith
      from 3 have k: "nat (int p - q) = Suc (nat (int p - (q + 1)))" by arith
      have "x + (int p - q) = x + 1 + (int p - (q + 1))" by simp
      with 3 ne p k show ?thesis unfolding l r by auto
    qed
  qed
  then show ?thesis by (simp add: q_def)
qed

lemma written_cells_Cons_out:
  assumes "\<not> (0 \<le> x \<and> x < w \<and> 0 \<le> y \<and> y < h)"
  shows "written_cells COLORS w h bg fg d data (x + 1) y cells =
         written_cells COLORS w h bg fg d (ch # data) x y cells"
proof (rule nth_equalityI)
  show "length (written_cells COLORS w h bg fg d data (x + 1) y cells) =
        length (written_cells COLORS w h bg fg d (ch # data) x y cells)"
    by simp
next
  fix p
  assume "p < length (written_cells COLORS w h bg fg d data (x + 1) y cells)"
  then have p: "p < length cells" by simp
  define q where "q = y * w + x"
  have q1: "q + 1 = y * w + (x + 1)" by (simp add: q_def)
  note l = written_cells_nth [OF p q1, of COLORS h bg fg d data]
  note r = written_cells_nth [OF p q_def, of COLORS h bg fg d "ch # data"]
  consider "int p = q" | "int p < q" | "q < int p" by linarith
  then show "written_cells COLORS w h bg fg d data (x + 1) y cells ! p =
        written_cells COLORS w h bg fg d (ch # data) x y cells ! p"
  proof cases
    case 1
    with p assms show ?thesis unfolding l r by auto
  next
    case 2
    with p show ?thesis unfolding l r by simp
  next
    case 3
    from 3 have k: "nat (int p - q) = Suc (nat (int p - (q + 1)))" by arith
    have "x + (int p - q) = x + 1 + (int p - (q + 1))" by simp
    with 3 p k show ?thesis unfolding l r by auto
  qed
qed

lemma write_loop_cells:
  "cur_width this = w \<Longrightarrow> length (cur_cells this) = nat (w * h) \<Longrightarrow>
   write_loop COLORS w h bg fg d data this =
     Inr (this\<lparr>cur_cells := written_cells COLORS w h bg fg d data (cur_x this) (cur_y this)
                               (cur_cells this),
               cur_x := cur_x this + int (length data)\<rparr>)"
proof (induction data arbitrary: this)
  case Nil
  show ?case by (simp add: written_cells_Nil)
next
  case (Cons ch data)
  show ?case
  proof (cases "0 \<le> cur_x this \<and> cur_x this < w \<and> 0 \<le> cur_y this \<and> cur_y this < h")
    case True
    then have inb: "0 \<le> cur_x this" "cur_x this < w" "0 \<le> cur_y this" "cur_y this < h"
      by simp_all
    let ?q = "cur_y this * w + cur_x this"
    from pointer_in_grid [OF inb] Cons.prems
    have get: "js_get (cur_cells this) ?q = Some (cur_cells this ! nat ?q)"
      by (simp add: js_get_def)
    let ?this1 = "this\<lparr>cur_cells := (cur_cells this)
                    [nat ?q := write_cell COLORS bg fg d [ch] (cur_x this) (cur_y this)
                                 (cur_cells this ! nat ?q)],
                  cur_x := cur_x this + 1\<rparr>"
    have "write_loop COLORS w h bg fg d (ch # data) this = write_loop COLORS w h bg fg d data ?this1"
      using True get Cons.prems by (simp add: getPointerFromXY_def default_arg_def Let_def)
    also have "\<dots> = Inr (?this1\<lparr>cur_cells := written_cells COLORS w h bg fg d data (cur_x ?this1)
                                 (cur_y ?this1) (cur_cells ?this1),
                               cur_x := cur_x ?this1 + int (length data)\<rparr>)"
      using Cons.prems by (intro Cons.IH) simp_all
    finally show ?thesis
      using written_cells_Cons_in [OF inb, of COLORS bg fg d data "cur_cells this" ch]
      by (simp add: add.assoc)
  next
    case False
    let ?this1 = "this\<lparr>cur_x := cur_x this + 1\<rparr>"
    have "write_loop COLORS w h bg fg d (ch # data) this = write_loop COLORS w h bg fg d data ?this1"
      using False by (auto simp: Let_def)
    also have "\<dots> = Inr (?this1\<lparr>cur_cells := written_cells COLORS w h bg fg d data (cur_x ?this1)
                                 (cur_y ?this1) (cur_cells ?this1),
                               cur_x := cur_x ?this1 + int (length data)\<rparr>)"
      using Cons.prems by (intro Cons.IH) simp_all
    finally show ?thesis
      using written_cells_Cons_out [OF False, of COLORS bg fg d data "cur_cells this" ch]
      by (simp add: add.assoc)
  qed
qed


lemma display_eta:
  "\<lparr>bold = bold d, dim = dim d, underlined = underlined d, blink = blink d,
    reverse = reverse d, hidden = hidden d\<rparr> = d"
  by (cases d) simp

lemma write_cell_eq:
  "write_cell COLORS bg fg d [ch] x y c =
     (setForeground COLORS (Some fg) (setBackground COLORS (Some bg) c))
       \<lparr>c_char := [ch], c_x := x, c_y := y, c_display := d, c_modified := True\<rparr>"
  by (simp add: write_cell_def setModified_def setDisplay_def setForeground_def setBackground_def
      setX_def setY_def setChar_def default_arg_def Let_def display_eta)

text \<open>
  What \<^verbatim>\<open>write(data)\<close> does on a screen whose grid has \<open>width * height\<close> cells. It
  raises nothing and changes only the grid and the cursor's \<open>x\<close>, which advances by the
  length of \<^verbatim>\<open>data\<close>, one step for each code unit, inside the grid or not. Code unit
  \<open>k\<close> is written at \<open>(x + k, y)\<close>: when that position is inside the grid, the cell at
  index \<open>y * width + x + k\<close> gets this code unit, these coordinates, the pen's six style
  flags and a true dirty flag, and its colours are what \<^verbatim>\<open>setBackground\<close> and
  \<^verbatim>\<open>setForeground\<close> make of the pen's colour names. Every other cell is left as it was:
  nothing wraps to the next line.
\<close>

lemma write_effect:
  assumes "wf_cursor this"
  shows "\<exists>this'. Cursor_write COLORS data this = Inr this' \<and>
           this' = this\<lparr>cur_cells := cur_cells this', cur_x := cur_x this + int (length data)\<rparr> \<and>
           length (cur_cells this') = length (cur_cells this) \<and>
           (\<forall>k < length data.
              0 \<le> cur_x this + int k \<and> cur_x this + int k < cur_width this \<and>
              0 \<le> cur_y this \<and> cur_y this < cur_height this \<longrightarrow>
              cur_cells this' ! nat (cur_y this * cur_width this + (cur_x this + int k)) =
                (setForeground COLORS (Some (cur_foreground this))
                  (setBackground COLORS (Some (cur_background this))
                    (cur_cells this ! nat (cur_y this * cur_width this + (cur_x this + int k)))))
                  \<lparr>c_char := [data ! k], c_x := cur_x this + int k, c_y := cur_y this,
                   c_display := cur_display this, c_modified := True\<rparr>) \<and>
           (\<forall>p < length (cur_cells this).
              \<not> (0 \<le> cur_y this \<and> cur_y this < cur_height this \<and>
                 (\<exists>k < length data.
                    0 \<le> cur_x this + int k \<and> cur_x this + int k < cur_width this \<and>
                    int p = cur_y this * cur_width this + (cur_x this + int k))) \<longrightarrow>
              cur_cells this' ! p = cur_cells this ! p)"
proof -
  let ?w = "cur_width this" and ?h = "cur_height this"
  let ?x = "cur_x this" and ?y = "cur_y this"
  let ?bg = "cur_background this" and ?fg = "cur_foreground this" and ?d = "cur_display this"
  let ?cells' = "written_cells COLORS ?w ?h ?bg ?fg ?d data ?x ?y (cur_cells this)"
  let ?this' = "this\<lparr>cur_cells := ?cells', cur_x := ?x + int (length data)\<rparr>"
  define q where "q = ?y * ?w + ?x"
  from assms have len: "length (cur_cells this) = nat (?w * ?h)"
    by (simp add: wf_cursor_def)
  have run: "Cursor_write COLORS data this = Inr ?this'"
    unfolding Cursor_write_def using len by (intro write_loop_cells) simp_all
  have inb: "cur_cells ?this' ! nat (?y * ?w + (?x + int k)) =
               (setForeground COLORS (Some ?fg) (setBackground COLORS (Some ?bg)
                  (cur_cells this ! nat (?y * ?w + (?x + int k)))))
                 \<lparr>c_char := [data ! k], c_x := ?x + int k, c_y := ?y,
                  c_display := ?d, c_modified := True\<rparr>"
    if k: "k < length data"
      and b: "0 \<le> ?x + int k \<and> ?x + int k < ?w \<and> 0 \<le> ?y \<and> ?y < ?h" for k
  proof -
    from b have b': "0 \<le> ?x + int k" "?x + int k < ?w" "0 \<le> ?y" "?y < ?h" by simp_all
    define p where "p = nat (?y * ?w + (?x + int k))"
    from pointer_in_grid [OF b'] len
    have p: "p < length (cur_cells this)"
      and p0: "0 \<le> ?y * ?w + (?x + int k)" by (simp_all add: p_def)
    have pk: "int p - q = int k"
      using p0 by (simp add: q_def p_def)
    then have qp: "q \<le> int p" by simp
    have "cur_cells ?this' ! p =
               (setForeground COLORS (Some ?fg) (setBackground COLORS (Some ?bg)
                  (cur_cells this ! p)))
                 \<lparr>c_char := [data ! k], c_x := ?x + int k, c_y := ?y,
                  c_display := ?d, c_modified := True\<rparr>"
      using k b qp by (simp add: written_cells_nth [OF p q_def] pk write_cell_eq)
    then show ?thesis by (simp add: p_def)
  qed
  have out: "cur_cells ?this' ! p = cur_cells this ! p"
    if p: "p < length (cur_cells this)"
      and n: "\<not> (0 \<le> ?y \<and> ?y < ?h \<and>
                 (\<exists>k < length data. 0 \<le> ?x + int k \<and> ?x + int k < ?w \<and>
                    int p = ?y * ?w + (?x + int k)))" for p
  proof -
    have "\<not> (0 \<le> ?y \<and> ?y < ?h \<and> q \<le> int p \<and> int p - q < int (length data) \<and>
             0 \<le> ?x + (int p - q) \<and> ?x + (int p - q) < ?w)"
    proof
      assume a: "0 \<le> ?y \<and> ?y < ?h \<and> q \<le> int p \<and> int p - q < int (length data) \<and>
             0 \<le> ?x + (int p - q) \<and> ?x + (int p - q) < ?w"
      define k where "k = nat (int p - q)"
      from a have k: "k < length data" and ik: "int k = int p - q"
        by (auto simp: k_def)
      from ik have "int p = ?y * ?w + (?x + int k)" by (simp add: q_def)
      moreover from a ik have "0 \<le> ?x + int k \<and> ?x + int k < ?w" by simp
      ultimately show False using a k n by blast
    qed
    then have "?cells' ! p = cur_cells this ! p"
      unfolding written_cells_nth [OF p q_def] by (rule if_not_P)
    then show ?thesis by simp
  qed
  from run inb out show ?thesis by auto
qed

text \<open>On the example screen, \<^verbatim>\<open>moveTo(1, 1).write('Hi')\<close> gives the written screen, and
  \<^verbatim>\<open>moveTo(2, 1).write('Hi')\<close> writes the first code unit in the last column and drops
  the second, with the cursor two columns on.\<close>

lemma write_example:
  "Cursor_write COLORS_example ''Hi'' (moveTo 1 1 example_screen) = Inr written_screen \<and>
   Cursor_write COLORS_example ''Hi'' (moveTo 2 1 example_screen) =
     Inr (example_screen
           \<lparr>cur_x := 4, cur_y := 1,
            cur_cells := replicate 5 example_cell @
              [example_cell\<lparr>c_char := ''H'', c_x := 2, c_y := 1, c_modified := True\<rparr>]\<rparr>)"
  by code_simp

text \<open>
  C3. \<^verbatim>\<open>write(text)\<close> is to update the cell under the cursor with the character, the
  cursor's coordinates and the current pen state, colours included. With \<open>BLACK = 0\<close> in
  the colour table and the pen set by \<^verbatim>\<open>background('black').foreground('white')\<close>,
  \<^verbatim>\<open>write('H')\<close> at \<open>(0, 0)\<close> stores the character, the coordinates, the dirty flag and
  the foreground \<^verbatim>\<open>WHITE\<close>, but the background \<^verbatim>\<open>none\<close>: the pen's background is lost
  in the truthiness test of \<^verbatim>\<open>setBackground\<close>.
\<close>

theorem write_black_pen_stores_none:
  "cur_background (Cursor_foreground (Some ''white'')
                    (Cursor_background (Some ''black'') example_screen)) = ''black'' \<and>
   COLORS_example ''BLACK'' = Some 0 \<and>
   Cursor_write COLORS_example ''H''
     (Cursor_foreground (Some ''white'') (Cursor_background (Some ''black'') example_screen)) =
     Inr (example_screen
           \<lparr>cur_x := 1, cur_background := ''black'', cur_foreground := ''white'',
            cur_cells :=
              example_cell\<lparr>c_char := ''H'', c_x := 0, c_y := 0, c_background := ''none'',
                           c_foreground := ''WHITE'', c_modified := True\<rparr> #
              replicate 5 example_cell\<rparr>)"
  by code_simp

section \<open>Properties of erase\<close>

text \<open>
  What \<^verbatim>\<open>erase\<close> does on every screen: it changes the grid only, and resets the cell
  of index \<open>p\<close> exactly when \<open>p = y * width + x\<close> for some \<open>x\<close> in \<open>x1..x2\<close> and some
  \<open>y\<close> in \<open>y1..y2\<close>. A coordinate of the rectangle that is inside the grid is therefore
  reset, and no cell ever changes its stored coordinates.
\<close>

lemma erase_x_step:
  "x \<le> x2 \<Longrightarrow>
     erase_x COLORS y x x2 this =
       erase_x COLORS y (x + 1) x2 (erase_cell COLORS (y * cur_width this + x) this)"
  by (subst erase_x.simps) (simp add: erase_cell_def getPointerFromXY_def default_arg_def Let_def)

lemma erase_x_done: "\<not> x \<le> x2 \<Longrightarrow> erase_x COLORS y x x2 this = this"
  by (subst erase_x.simps) simp

lemma erase_y_step:
  "y \<le> y2 \<Longrightarrow>
     erase_y COLORS x1 x2 y y2 this = erase_y COLORS x1 x2 (y + 1) y2 (erase_x COLORS y x1 x2 this)"
  by (subst erase_y.simps) simp

lemma erase_y_done: "\<not> y \<le> y2 \<Longrightarrow> erase_y COLORS x1 x2 y y2 this = this"
  by (subst erase_y.simps) simp

lemma Cell_reset_idem: "Cell_reset COLORS (Cell_reset COLORS c) = Cell_reset COLORS c"
  by (simp add: Cell_reset_def setModified_def setDisplay_def setForeground_def setBackground_def
      setChar_def default_arg_def Let_def)

lemma length_reset_where [simp]: "length (reset_where COLORS P cells) = length cells"
  by (simp add: reset_where_def)

lemma reset_where_nth:
  "p < length cells \<Longrightarrow>
     reset_where COLORS P cells ! p = (if P (int p) then Cell_reset COLORS (cells ! p) else cells ! p)"
  by (simp add: reset_where_def)

lemma reset_where_none: "(\<And>p. \<not> P p) \<Longrightarrow> reset_where COLORS P cells = cells"
  by (rule nth_equalityI) (simp_all add: reset_where_nth)

lemma reset_where_twice:
  "reset_where COLORS P (reset_where COLORS Q cells) = reset_where COLORS (\<lambda>p. P p \<or> Q p) cells"
  by (rule nth_equalityI) (simp_all add: reset_where_nth Cell_reset_idem)

lemma erase_cell_eq:
  "erase_cell COLORS q this = this\<lparr>cur_cells := reset_where COLORS (\<lambda>p. p = q) (cur_cells this)\<rparr>"
proof -
  have "reset_where COLORS (\<lambda>p. p = q) (cur_cells this) = cur_cells this"
    if "\<not> (0 \<le> q \<and> nat q < length (cur_cells this))"
  proof (rule nth_equalityI)
    show "length (reset_where COLORS (\<lambda>p. p = q) (cur_cells this)) = length (cur_cells this)"
      by simp
  next
    fix p assume "p < length (reset_where COLORS (\<lambda>p. p = q) (cur_cells this))"
    then have p: "p < length (cur_cells this)" by simp
    with that have "int p \<noteq> q" by auto
    with p show "reset_where COLORS (\<lambda>p. p = q) (cur_cells this) ! p = cur_cells this ! p"
      by (simp add: reset_where_nth)
  qed
  moreover
  have "reset_where COLORS (\<lambda>p. p = q) (cur_cells this) =
          (cur_cells this)[nat q := Cell_reset COLORS (cur_cells this ! nat q)]"
    if "0 \<le> q \<and> nat q < length (cur_cells this)"
  proof (rule nth_equalityI)
    show "length (reset_where COLORS (\<lambda>p. p = q) (cur_cells this)) =
          length ((cur_cells this)[nat q := Cell_reset COLORS (cur_cells this ! nat q)])"
      by simp
  next
    fix p assume "p < length (reset_where COLORS (\<lambda>p. p = q) (cur_cells this))"
    then have p: "p < length (cur_cells this)" by simp
    from that have "int p = q \<longleftrightarrow> p = nat q" by auto
    with p show "reset_where COLORS (\<lambda>p. p = q) (cur_cells this) ! p =
                 (cur_cells this)[nat q := Cell_reset COLORS (cur_cells this ! nat q)] ! p"
      by (auto simp add: reset_where_nth)
  qed
  ultimately show ?thesis
    by (cases "0 \<le> q \<and> nat q < length (cur_cells this)") (auto simp add: erase_cell_def js_get_def)
qed

lemma erase_x_eq:
  "erase_x COLORS y x x2 this =
     this\<lparr>cur_cells :=
            reset_where COLORS (\<lambda>p. \<exists>x' \<in> {x..x2}. p = y * cur_width this + x') (cur_cells this)\<rparr>"
proof (induction "nat (x2 + 1 - x)" arbitrary: x this)
  case 0
  then have "\<not> x \<le> x2" by simp
  then show ?case by (simp add: erase_x_done reset_where_none)
next
  case (Suc n)
  then have le: "x \<le> x2" by simp
  then have split: "{x..x2} = insert x {x + 1..x2}" by auto
  let ?q = "y * cur_width this + x"
  have w: "cur_width (erase_cell COLORS ?q this) = cur_width this"
    by (simp add: erase_cell_eq)
  have "n = nat (x2 + 1 - (x + 1))" using Suc.hyps(2) by simp
  from Suc.hyps(1) [OF this, of "erase_cell COLORS ?q this"]
  show ?case
    unfolding erase_x_step [OF le] w
    by (simp add: erase_cell_eq reset_where_twice split disj_commute)
qed

lemma erase_y_eq:
  "erase_y COLORS x1 x2 y y2 this =
     this\<lparr>cur_cells :=
            reset_where COLORS
              (\<lambda>p. \<exists>y' \<in> {y..y2}. \<exists>x' \<in> {x1..x2}. p = y' * cur_width this + x')
              (cur_cells this)\<rparr>"
proof (induction "nat (y2 + 1 - y)" arbitrary: y this)
  case 0
  then have "\<not> y \<le> y2" by simp
  then show ?case by (simp add: erase_y_done reset_where_none)
next
  case (Suc n)
  then have le: "y \<le> y2" by simp
  then have split: "{y..y2} = insert y {y + 1..y2}" by auto
  have "n = nat (y2 + 1 - (y + 1))" using Suc.hyps(2) by simp
  from Suc.hyps(1) [OF this, of "erase_x COLORS y x1 x2 this"]
  show ?case
    unfolding erase_y_step [OF le]
    by (simp add: erase_x_eq reset_where_twice split disj_commute)
qed

lemma erase_eq:
  "erase COLORS x1 y1 x2 y2 this =
     this\<lparr>cur_cells :=
            reset_where COLORS
              (\<lambda>p. \<exists>y \<in> {y1..y2}. \<exists>x \<in> {x1..x2}. p = y * cur_width this + x)
              (cur_cells this)\<rparr>"
  by (simp add: erase_def erase_y_eq)

lemma erase_resets_rectangle:
  assumes "wf_cursor this"
    and "x1 \<le> x" "x \<le> x2" "y1 \<le> y" "y \<le> y2"
    and "0 \<le> x" "x < cur_width this" "0 \<le> y" "y < cur_height this"
  shows "cur_cells (erase COLORS x1 y1 x2 y2 this) ! nat (y * cur_width this + x) =
           Cell_reset COLORS (cur_cells this ! nat (y * cur_width this + x))"
proof -
  define q where "q = y * cur_width this + x"
  from pointer_in_grid [OF assms(6-9)] assms(1)
  have q: "0 \<le> q" "nat q < length (cur_cells this)"
    by (simp_all add: wf_cursor_def q_def)
  have "\<exists>y' \<in> {y1..y2}. \<exists>x' \<in> {x1..x2}. int (nat q) = y' * cur_width this + x'"
    using assms(2-5) q(1) by (intro bexI [of _ y] bexI [of _ x]) (simp_all add: q_def)
  then have "cur_cells (erase COLORS x1 y1 x2 y2 this) ! nat q =
             Cell_reset COLORS (cur_cells this ! nat q)"
    using q(2) by (simp add: erase_eq reset_where_nth)
  then show ?thesis by (simp add: q_def)
qed

lemma erase_keeps_coordinates:
  assumes "p < length (cur_cells this)"
  shows "c_x (cur_cells (erase COLORS x1 y1 x2 y2 this) ! p) = c_x (cur_cells this ! p) \<and>
         c_y (cur_cells (erase COLORS x1 y1 x2 y2 this) ! p) = c_y (cur_cells this ! p)"
proof -
  have "c_x (Cell_reset COLORS c) = c_x c \<and> c_y (Cell_reset COLORS c) = c_y c" for c
    by (simp add: Cell_reset_def setModified_def setDisplay_def setForeground_def
        setBackground_def setChar_def Let_def)
  with assms show ?thesis
    by (simp add: erase_eq reset_where_nth)
qed

text \<open>
  C2. \<^verbatim>\<open>erase(x1, y1, x2, y2)\<close> is to reset the cells of the rectangle that exist in the
  grid and to skip the coordinates outside it. The code skips a coordinate only when the
  index \<open>y * width + x\<close> is outside the array: on the screen of three columns and two
  rows, \<^verbatim>\<open>erase(3, 0, 3, 0)\<close> names the single coordinate \<open>(3, 0)\<close>, which is outside
  the grid, and resets the cell of index \<open>3\<close>, the cell at \<open>(0, 1)\<close>.
\<close>

theorem erase_wraps_to_next_row:
  "getXYFromPointer example_screen 3 = Some (0, 1) \<and>
   map isModified (cur_cells (erase COLORS_example 3 0 3 0 example_screen)) =
     [False, False, False, True, False, False]"
  by code_simp

section \<open>The invariant is kept\<close>

text \<open>The constructor sets up the invariant of the data model, and \<^verbatim>\<open>moveTo\<close>,
  \<^verbatim>\<open>write\<close>, \<^verbatim>\<open>flush\<close> and \<^verbatim>\<open>erase\<close> keep it: it holds of every screen these
  operations can reach.\<close>

lemma wf_Cursor_new:
  "Cursor_new COLORS stream width height = Inr this \<Longrightarrow> wf_cursor this"
  by (auto simp: Cursor_new_def wf_cursor_def split: if_splits)

lemma wf_moveTo: "wf_cursor this \<Longrightarrow> wf_cursor (moveTo x y this)"
  by (simp add: wf_cursor_def moveTo_def)

lemma wf_Cursor_write:
  assumes "wf_cursor this" and "Cursor_write COLORS data this = Inr this'"
  shows "wf_cursor this'"
proof -
  from assms(1) have "length (cur_cells this) = nat (cur_width this * cur_height this)"
    by (simp add: wf_cursor_def)
  from write_loop_cells [OF refl this] assms show ?thesis
    by (auto simp: Cursor_write_def wf_cursor_def)
qed

lemma wf_flush: "wf_cursor this \<Longrightarrow> wf_cursor (flush COLORS this)"
  using pen_flush_loop [of COLORS 0 this]
  by (simp add: wf_cursor_def flush_def cells_flush_loop lastFrame_flush_loop)

lemma wf_erase: "wf_cursor this \<Longrightarrow> wf_cursor (erase COLORS x1 y1 x2 y2 this)"
  by (simp add: wf_cursor_def erase_eq)

section \<open>Properties of reset\<close>

text \<open>
  C10. \<^verbatim>\<open>Cell.reset()\<close> keeps the coordinates of the cell. It sets the character to a
  space, the six style flags to false and the dirty flag to true; and, the colour table
  having no colour called \<^verbatim>\<open>NONE\<close>, it sets background and foreground to \<^verbatim>\<open>none\<close> and
  nothing else, so that the reset cell renders as a blank at the coordinates it had
  stored. \<^verbatim>\<open>erase\<close>, which resets cells, leaves the stored coordinates of every cell of
  the grid as they were, so a cell that was written and then erased is rendered by the
  next flush at the coordinates \<^verbatim>\<open>write\<close> stored in it.
\<close>

theorem Cell_reset_frame:
  "c_x (Cell_reset COLORS c) = c_x c \<and> c_y (Cell_reset COLORS c) = c_y c \<and>
   c_char (Cell_reset COLORS c) = '' '' \<and>
   c_display (Cell_reset COLORS c) =
     \<lparr>bold = False, dim = False, underlined = False, blink = False,
      reverse = False, hidden = False\<rparr> \<and>
   c_modified (Cell_reset COLORS c) \<and>
   (\<not> truthy (COLORS ''NONE'') \<longrightarrow>
      Cell_reset COLORS c =
        c\<lparr>c_char := '' '', c_background := ''none'', c_foreground := ''none'',
          c_display := \<lparr>bold = False, dim = False, underlined = False, blink = False,
                         reverse = False, hidden = False\<rparr>,
          c_modified := True\<rparr> \<and>
      toString COLORS (Cell_reset COLORS c) =
        CHR 0x1B # ''['' @ Number_toString (c_y c + 1) @ '';'' @ Number_toString (c_x c + 1) @
        ''f '' @ CHR 0x1B # ''[0m'') \<and>
   (\<forall>p < length (cur_cells this).
      c_x (cur_cells (erase COLORS x1 y1 x2 y2 this) ! p) = c_x (cur_cells this ! p) \<and>
      c_y (cur_cells (erase COLORS x1 y1 x2 y2 this) ! p) = c_y (cur_cells this ! p))"
proof -
  have cell: "c_x (Cell_reset COLORS c) = c_x c \<and> c_y (Cell_reset COLORS c) = c_y c \<and>
     c_char (Cell_reset COLORS c) = '' '' \<and>
     c_display (Cell_reset COLORS c) =
       \<lparr>bold = False, dim = False, underlined = False, blink = False,
        reverse = False, hidden = False\<rparr> \<and>
     c_modified (Cell_reset COLORS c)"
    by (simp add: Cell_reset_def setModified_def setDisplay_def setForeground_def
        setBackground_def setChar_def default_arg_def Let_def)
  have blank: "Cell_reset COLORS c =
        c\<lparr>c_char := '' '', c_background := ''none'', c_foreground := ''none'',
          c_display := \<lparr>bold = False, dim = False, underlined = False, blink = False,
                         reverse = False, hidden = False\<rparr>,
          c_modified := True\<rparr> \<and>
      toString COLORS (Cell_reset COLORS c) =
        CHR 0x1B # ''['' @ Number_toString (c_y c + 1) @ '';'' @ Number_toString (c_x c + 1) @
        ''f '' @ CHR 0x1B # ''[0m''"
    if "\<not> truthy (COLORS ''NONE'')"
    using that
    by (simp add: Cell_reset_def setModified_def setDisplay_def setForeground_def
        setBackground_def setChar_def default_arg_def toUpperCase_none toString_def Let_def
        getChar_def getX_def getY_def getBackground_def getForeground_def getDisplay_def
        encodeToVT100_def ESC_def RESET_ALL_def)
  from cell blank erase_keeps_coordinates [of _ this COLORS x1 y1 x2 y2]
  show ?thesis by blast
qed

theorem Cell_reset_frame_witness:
  "\<not> truthy (COLORS_example ''NONE'') \<and>
   Cell_reset COLORS_example
     \<lparr>c_char = ''H'', c_x = 10, c_y = 4, c_background = ''WHITE'', c_foreground = ''YELLOW'',
      c_display = \<lparr>bold = True, dim = False, underlined = False, blink = False,
                   reverse = False, hidden = False\<rparr>,
      c_modified = False\<rparr> =
     \<lparr>c_char = '' '', c_x = 10, c_y = 4, c_background = ''none'', c_foreground = ''none'',
      c_display = \<lparr>bold = False, dim = False, underlined = False, blink = False,
                   reverse = False, hidden = False\<rparr>,
      c_modified = True\<rparr> \<and>
   toString COLORS_example
     (Cell_reset COLORS_example
       \<lparr>c_char = ''H'', c_x = 10, c_y = 4, c_background = ''WHITE'', c_foreground = ''YELLOW'',
        c_display = \<lparr>bold = True, dim = False, underlined = False, blink = False,
                     reverse = False, hidden = False\<rparr>,
        c_modified = False\<rparr>) =
     CHR 0x1B # ''[5;11f '' @ CHR 0x1B # ''[0m'' \<and>
   cur_stream
     (flush COLORS_example
       (erase COLORS_example 1 1 2 1 (flush COLORS_example written_screen))) =
     [CHR 0x1B # ''[2;2fH'' @ CHR 0x1B # ''[0m'', CHR 0x1B # ''[2;3fi'' @ CHR 0x1B # ''[0m'',
      CHR 0x1B # ''[2;2f '' @ CHR 0x1B # ''[0m'', CHR 0x1B # ''[2;3f '' @ CHR 0x1B # ''[0m'']"
proof -
  let ?c = "\<lparr>c_char = ''H'', c_x = 10, c_y = 4, c_background = ''WHITE'',
              c_foreground = ''YELLOW'',
              c_display = \<lparr>bold = True, dim = False, underlined = False, blink = False,
                           reverse = False, hidden = False\<rparr>,
              c_modified = False\<rparr>"
  have none: "\<not> truthy (COLORS_example ''NONE'')"
    by (simp add: COLORS_example_def truthy_def)
  have n5: "Number_toString 5 = ''5''" and n11: "Number_toString 11 = ''11''"
    by code_simp+
  have scenario: "cur_stream
     (flush COLORS_example
       (erase COLORS_example 1 1 2 1 (flush COLORS_example written_screen))) =
     [CHR 0x1B # ''[2;2fH'' @ CHR 0x1B # ''[0m'', CHR 0x1B # ''[2;3fi'' @ CHR 0x1B # ''[0m'',
      CHR 0x1B # ''[2;2f '' @ CHR 0x1B # ''[0m'', CHR 0x1B # ''[2;3f '' @ CHR 0x1B # ''[0m'']"
    by code_simp
  from Cell_reset_frame [of COLORS_example ?c example_screen 0 0 0 0] none
  have A: "Cell_reset COLORS_example ?c =
             ?c\<lparr>c_char := '' '', c_background := ''none'', c_foreground := ''none'',
               c_display := \<lparr>bold = False, dim = False, underlined = False, blink = False,
                              reverse = False, hidden = False\<rparr>,
               c_modified := True\<rparr>"
    and B: "toString COLORS_example (Cell_reset COLORS_example ?c) =
             CHR 0x1B # ''['' @ Number_toString (c_y ?c + 1) @ '';'' @
             Number_toString (c_x ?c + 1) @ ''f '' @ CHR 0x1B # ''[0m''"
    by blast+
  have A': "Cell_reset COLORS_example ?c =
             \<lparr>c_char = '' '', c_x = 10, c_y = 4, c_background = ''none'',
              c_foreground = ''none'',
              c_display = \<lparr>bold = False, dim = False, underlined = False, blink = False,
                           reverse = False, hidden = False\<rparr>,
              c_modified = True\<rparr>"
    unfolding A by simp
  have B': "toString COLORS_example (Cell_reset COLORS_example ?c) =
             CHR 0x1B # ''[5;11f '' @ CHR 0x1B # ''[0m''"
    unfolding B using n5 n11 by simp
  from none A' B' scenario show ?thesis by blast
qed

end
